theory Spec2Isabelle
  imports Main "HOL-Library.Word" "HOL-Library.Multiset" "HOL-Library.List_Lexorder"
begin

section \<open>The CosmWasm client (packages/sdk/src/cosmwasmclient.ts)\<close>

subsection \<open>Values of the host language\<close>

text \<open>
  A \<open>Uint8Array\<close> is a list of bytes. A thrown \<open>new Error(message)\<close> (a rejected
  promise, for the async methods) is the value \<open>Inl (Error message)\<close> of a sum type; a
  normal return is \<open>Inr\<close>. The numbers the client handles (account numbers, sequences,
  result codes, fee amounts) are integers.
\<close>

type_synonym bytes = "8 word list"

datatype error = Error string

text \<open>\<open>Number.prototype.toString()\<close> on an integer: its decimal digits, with a minus sign.\<close>

fun digitsOf :: "nat \<Rightarrow> string" where
  "digitsOf n =
     (if n < 10 then [''0123456789'' ! n]
      else digitsOf (n div 10) @ [''0123456789'' ! (n mod 10)])"

declare digitsOf.simps [simp del]

definition toString :: "int \<Rightarrow> string" where
  "toString n = (if n < 0 then CHR ''-'' # digitsOf (nat (- n)) else digitsOf (nat n))"

subsection \<open>Fees\<close>

record Coin =
  amount :: string
  denom :: string

record StdFee =
  fee_amount :: "Coin list"
  gas :: string

text \<open>
  The four fees of \<open>FeeTable\<close>. The built-in table holds a \<open>StdFee\<close> in each field
  (\<open>StdFee FeeTable\<close>). The table of a client is built by an object spread, which can
  put \<open>undefined\<close> where the interface declares a \<open>StdFee\<close>; so its fields are
  \<open>StdFee option\<close>, with \<open>None\<close> for \<open>undefined\<close>.
\<close>

record 'fee FeeTable =
  upload :: 'fee
  init :: 'fee
  exec :: 'fee
  send :: 'fee

text \<open>
  \<open>Partial<FeeTable>\<close>: each key is absent from the object, or present; the optional
  property type lets a present key hold a \<open>StdFee\<close> or \<open>undefined\<close>.
\<close>

datatype 'a property = Absent | Present 'a

record PartialFeeTable =
  partial_upload :: "StdFee option property"
  partial_init :: "StdFee option property"
  partial_exec :: "StdFee option property"
  partial_send :: "StdFee option property"

definition emptyFeeTable :: PartialFeeTable where
  "emptyFeeTable =
     \<lparr>partial_upload = Absent, partial_init = Absent, partial_exec = Absent,
      partial_send = Absent\<rparr>"

definition singleAmount :: "int \<Rightarrow> string \<Rightarrow> Coin list" where
  "singleAmount a d = [\<lparr>amount = toString a, denom = d\<rparr>]"

definition defaultFees :: "StdFee FeeTable" where
  "defaultFees =
     \<lparr>upload = \<lparr>fee_amount = singleAmount 25000 ''ucosm'', gas = ''1000000''\<rparr>,
      init = \<lparr>fee_amount = singleAmount 12500 ''ucosm'', gas = ''500000''\<rparr>,
      exec = \<lparr>fee_amount = singleAmount 5000 ''ucosm'', gas = ''200000''\<rparr>,
      send = \<lparr>fee_amount = singleAmount 2000 ''ucosm'', gas = ''80000''\<rparr>\<rparr>"

text \<open>
  The object spread \<open>{ ...defaults, ...custom }\<close>: the fields of \<open>defaults\<close>, each
  overwritten by the value of the key in \<open>custom\<close> when \<open>custom\<close> has the key, also
  when that value is \<open>undefined\<close>.
\<close>

definition spreadFees :: "StdFee FeeTable \<Rightarrow> PartialFeeTable \<Rightarrow> StdFee option FeeTable" where
  "spreadFees defaults custom =
     \<lparr>upload = (case partial_upload custom of Absent \<Rightarrow> Some (upload defaults) | Present v \<Rightarrow> v),
      init = (case partial_init custom of Absent \<Rightarrow> Some (init defaults) | Present v \<Rightarrow> v),
      exec = (case partial_exec custom of Absent \<Rightarrow> Some (exec defaults) | Present v \<Rightarrow> v),
      send = (case partial_send custom of Absent \<Rightarrow> Some (send defaults) | Present v \<Rightarrow> v)\<rparr>"

subsection \<open>The client object\<close>

text \<open>
  \<open>StdSignature\<close> is declared in \<open>./types\<close>; the client only passes it on, so it is the
  type parameter \<open>'sig\<close>.
\<close>

record 'sig SigningData =
  senderAddress :: string
  signCallback :: "bytes \<Rightarrow> error + 'sig"

record 'sig CosmWasmClient =
  restClient :: string
  signingData :: "'sig SigningData option"
  fees :: "StdFee option FeeTable"

text \<open>The private constructor; \<open>new RestClient(url)\<close> keeps the url only.\<close>

definition newCosmWasmClient ::
  "string \<Rightarrow> 'sig SigningData option \<Rightarrow> PartialFeeTable \<Rightarrow> 'sig CosmWasmClient" where
  "newCosmWasmClient url sd customFees =
     \<lparr>restClient = url, signingData = sd, fees = spreadFees defaultFees customFees\<rparr>"

definition makeReadOnly :: "string \<Rightarrow> 'sig CosmWasmClient" where
  "makeReadOnly url = newCosmWasmClient url None emptyFeeTable"

text \<open>\<open>feeTable || {}\<close>: an absent fee table is the empty object.\<close>

definition makeWritable ::
  "string \<Rightarrow> string \<Rightarrow> (bytes \<Rightarrow> error + 'sig) \<Rightarrow> PartialFeeTable option \<Rightarrow> 'sig CosmWasmClient" where
  "makeWritable url sender cb feeTable =
     newCosmWasmClient url
       (Some \<lparr>senderAddress = sender, signCallback = cb\<rparr>)
       (case feeTable of None \<Rightarrow> emptyFeeTable | Some t \<Rightarrow> t)"

text \<open>The two private getters.\<close>

definition client_senderAddress :: "'sig CosmWasmClient \<Rightarrow> error + string" where
  "client_senderAddress c =
     (case signingData c of
        None \<Rightarrow> Inl (Error ''Signing data not set in this client'')
      | Some sd \<Rightarrow> Inr (senderAddress sd))"

definition client_signCallback :: "'sig CosmWasmClient \<Rightarrow> error + (bytes \<Rightarrow> error + 'sig)" where
  "client_signCallback c =
     (case signingData c of
        None \<Rightarrow> Inl (Error ''Signing data not set in this client'')
      | Some sd \<Rightarrow> Inr (signCallback sd))"

subsection \<open>The node behind the REST client, and the helpers of other modules\<close>

record CosmosSdkAccount =
  address :: string
  coins :: "Coin list"
  public_key :: string
  account_number :: int
  sequence :: int

record 'raw PostTxsResponse =
  code :: "int option"
  raw_log :: "string option"
  txhash :: string
  logs :: 'raw

record Attribute =
  attr_key :: string
  attr_value :: string

datatype 'obj Msg =
    MsgStoreCode string string string string
  | MsgInstantiateContract string string 'obj "Coin list"
  | MsgExecuteContract string string 'obj "Coin list"
  | MsgSend string string "Coin list"

record ('obj, 'sig) StdTx =
  msg :: "'obj Msg list"
  fee :: "StdFee option"
  memo :: string
  signatures :: "'sig list"

text \<open>
  \<open>RestClient\<close> (\<open>./restclient\<close>), \<open>makeSignBytes\<close> and \<open>marshalTx\<close> (\<open>./encoding\<close>),
  \<open>parseLogs\<close> and \<open>findAttribute\<close> (\<open>./logs\<close>) and \<open>Encoding.toBase64\<close> are not part of
  this file; the client is modelled over any behaviour of theirs. A REST method answers
  with a response or throws. \<open>authAccounts\<close> gives the \<open>result.value\<close> of the response,
  \<open>nodeInfo\<close> its \<open>node_info.network\<close>. Every method of the client calls each REST
  method at most once, so one answer per request describes the node. The type of
  \<open>result.code\<close> and \<open>result.raw_log\<close> admits \<open>undefined\<close> (\<open>None\<close>), as the source's
  \<open>if (result.code)\<close> and \<open>result.raw_log || ""\<close> expect; so does the result of
  \<open>parseLogs\<close>, followed by \<open>|| []\<close> in the source. The fee that reaches
  \<open>makeSignBytes\<close> and the signed transaction is the field of the client's table, a
  \<open>StdFee\<close> or \<open>undefined\<close>.
\<close>

record ('obj, 'sig, 'raw, 'log) env =
  authAccounts :: "string \<Rightarrow> error + CosmosSdkAccount"
  nodeInfo :: "error + string"
  rest_postTx :: "bytes \<Rightarrow> error + 'raw PostTxsResponse"
  makeSignBytes :: "'obj Msg list \<Rightarrow> StdFee option \<Rightarrow> string \<Rightarrow> string \<Rightarrow> int \<Rightarrow> int \<Rightarrow> bytes"
  marshalTx :: "('obj, 'sig) StdTx \<Rightarrow> bytes"
  parseLogs :: "'raw \<Rightarrow> error + 'log list option"
  findAttribute :: "'log list \<Rightarrow> string \<Rightarrow> string \<Rightarrow> error + Attribute"
  toBase64 :: "bytes \<Rightarrow> string"

subsection \<open>Asynchronous methods\<close>

text \<open>
  An async method is a function from the calls made so far to its outcome (resolved
  with a value, or rejected with an error) and the calls made until then. The calls that
  leave the client are recorded: the three REST requests and the signing callback.
\<close>

datatype call = AuthAccounts string | NodeInfo | PostTx bytes | SignCallback bytes

type_synonym 'a promise = "call list \<Rightarrow> (error + 'a) \<times> call list"

definition resolve :: "'a \<Rightarrow> 'a promise" where
  "resolve x = (\<lambda>tr. (Inr x, tr))"

definition reject :: "error \<Rightarrow> 'a promise" where
  "reject e = (\<lambda>tr. (Inl e, tr))"

text \<open>A synchronous expression that returns or throws, inside an async method.\<close>

definition sync :: "error + 'a \<Rightarrow> 'a promise" where
  "sync r = (\<lambda>tr. (r, tr))"

text \<open>A call that leaves the client: it is recorded, then it answers.\<close>

definition request :: "call \<Rightarrow> error + 'a \<Rightarrow> 'a promise" where
  "request c r = (\<lambda>tr. (r, tr @ [c]))"

text \<open>\<open>const x = await m; rest\<close>: a rejection of \<open>m\<close> is the rejection of the whole method.\<close>

definition await :: "'a promise \<Rightarrow> ('a \<Rightarrow> 'b promise) \<Rightarrow> 'b promise" where
  "await m rest =
     (\<lambda>tr. case m tr of (Inl e, tr') \<Rightarrow> (Inl e, tr') | (Inr x, tr') \<Rightarrow> rest x tr')"

subsection \<open>Queries\<close>

record GetNonceResult =
  accountNumber :: int
  nonce_sequence :: int

record 'log PostTxResult =
  post_logs :: "'log list"
  rawLog :: string
  transactionHash :: string

record 'log ExecuteResult =
  exec_logs :: "'log list"

definition chainId :: "('obj, 'sig, 'raw, 'log) env \<Rightarrow> 'sig CosmWasmClient \<Rightarrow> string promise" where
  "chainId E c = await (request NodeInfo (nodeInfo E)) (\<lambda>response. resolve response)"

text \<open>
  \<open>address || this.senderAddress\<close>: an absent address and the empty string are both falsy,
  and then the getter is evaluated (and may throw) before the request is made.
\<close>

definition getAccount ::
  "('obj, 'sig, 'raw, 'log) env \<Rightarrow> 'sig CosmWasmClient \<Rightarrow> string option
     \<Rightarrow> CosmosSdkAccount option promise" where
  "getAccount E c addr =
     await (sync (case addr of
                    None \<Rightarrow> client_senderAddress c
                  | Some a \<Rightarrow> if a = [] then client_senderAddress c else Inr a))
       (\<lambda>a. await (request (AuthAccounts a) (authAccounts E a))
         (\<lambda>v. resolve (if address v = [] then None else Some v)))"

definition getNonce ::
  "('obj, 'sig, 'raw, 'log) env \<Rightarrow> 'sig CosmWasmClient \<Rightarrow> string option
     \<Rightarrow> GetNonceResult promise" where
  "getNonce E c addr =
     await (getAccount E c addr)
       (\<lambda>account. case account of
          None \<Rightarrow> reject (Error
            ''Account does not exist on chain. Send some tokens there before trying to query nonces.'')
        | Some a \<Rightarrow> resolve \<lparr>accountNumber = account_number a, nonce_sequence = sequence a\<rparr>)"

subsection \<open>Posting a transaction\<close>

text \<open>The regular expression \<open>/^([0-9A-F][0-9A-F])+$/\<close>: one or more pairs of upper-case hex digits.\<close>

definition isUpperHexDigit :: "char \<Rightarrow> bool" where
  "isUpperHexDigit ch = (ch \<in> set ''0123456789ABCDEF'')"

fun matchesHexPairs :: "string \<Rightarrow> bool" where
  "matchesHexPairs [] = False"
| "matchesHexPairs [a] = False"
| "matchesHexPairs (a # b # rest) =
     (isUpperHexDigit a \<and> isUpperHexDigit b \<and> (rest = [] \<or> matchesHexPairs rest))"

text \<open>A value inside a template literal: \<open>undefined\<close> prints as its name.\<close>

definition showCode :: "int option \<Rightarrow> string" where
  "showCode v = (case v of None \<Rightarrow> ''undefined'' | Some n \<Rightarrow> toString n)"

definition showString :: "string option \<Rightarrow> string" where
  "showString v = (case v of None \<Rightarrow> ''undefined'' | Some s \<Rightarrow> s)"

text \<open>\<open>if (result.code)\<close>: \<open>undefined\<close> and \<open>0\<close> are falsy, every other number is truthy.\<close>

definition truthyCode :: "int option \<Rightarrow> bool" where
  "truthyCode v = (case v of None \<Rightarrow> False | Some n \<Rightarrow> n \<noteq> 0)"

definition postTx ::
  "('obj, 'sig, 'raw, 'log) env \<Rightarrow> 'sig CosmWasmClient \<Rightarrow> bytes \<Rightarrow> 'log PostTxResult promise" where
  "postTx E c tx =
     await (request (PostTx tx) (rest_postTx E tx))
       (\<lambda>result.
          if truthyCode (code result) then
            reject (Error (''Error when posting tx. Code: '' @ showCode (code result)
                           @ ''; Raw log: '' @ showString (raw_log result)))
          else if \<not> matchesHexPairs (txhash result) then
            reject (Error ''Received ill-formatted txhash. Must be non-empty upper-case hex'')
          else
            await (sync (parseLogs E (logs result)))
              (\<lambda>parsed. resolve
                 \<lparr>post_logs = (case parsed of None \<Rightarrow> [] | Some ls \<Rightarrow> ls),
                  rawLog = (case raw_log result of None \<Rightarrow> [] | Some s \<Rightarrow> s),
                  transactionHash = txhash result\<rparr>))"

subsection \<open>Signing and posting\<close>

text \<open>
  \<open>Number.parseInt(s, 10)\<close>: leading white space is skipped, a sign is read, then the
  longest run of decimal digits; with no digit the result is \<open>NaN\<close> (\<open>None\<close>).
\<close>

definition isWhiteSpace :: "char \<Rightarrow> bool" where
  "isWhiteSpace ch = (of_char ch \<in> {9, 10, 11, 12, 13, 32 :: nat})"

definition isDecimalDigit :: "char \<Rightarrow> bool" where
  "isDecimalDigit ch = (ch \<in> set ''0123456789'')"

definition digitsValue :: "string \<Rightarrow> nat" where
  "digitsValue ds = foldl (\<lambda>acc ch. 10 * acc + (of_char ch - 48)) 0 ds"

definition parseInt :: "string \<Rightarrow> int option" where
  "parseInt s =
     (let t = dropWhile isWhiteSpace s;
          neg = (t \<noteq> [] \<and> hd t = CHR ''-'');
          u = (if t \<noteq> [] \<and> (hd t = CHR ''-'' \<or> hd t = CHR ''+'') then tl t else t);
          ds = takeWhile isDecimalDigit u
      in if ds = [] then None
         else Some (if neg then - int (digitsValue ds) else int (digitsValue ds)))"

text \<open>A parameter with the default \<open>memo = ""\<close>, and \<open>transferAmount || []\<close>.\<close>

definition memoOrDefault :: "string option \<Rightarrow> string" where
  "memoOrDefault m = (case m of None \<Rightarrow> [] | Some s \<Rightarrow> s)"

definition coinsOrEmpty :: "Coin list option \<Rightarrow> Coin list" where
  "coinsOrEmpty a = (case a of None \<Rightarrow> [] | Some cs \<Rightarrow> cs)"

text \<open>\<open>await this.signCallback(signBytes)\<close>: the getter, then the call of the callback.\<close>

definition sign :: "'sig CosmWasmClient \<Rightarrow> bytes \<Rightarrow> 'sig promise" where
  "sign c signBytes =
     await (sync (client_signCallback c))
       (\<lambda>cb. request (SignCallback signBytes) (cb signBytes))"

text \<open>The method \<open>upload\<close> (the name \<open>upload\<close> is the field of the fee table).\<close>

definition client_upload ::
  "('obj, 'sig, 'raw, 'log) env \<Rightarrow> 'sig CosmWasmClient \<Rightarrow> bytes \<Rightarrow> string option
     \<Rightarrow> int option promise" where
  "client_upload E c wasmCode memo0 =
     (let memo = memoOrDefault memo0 in
      await (sync (client_senderAddress c)) (\<lambda>sender.
        let storeCodeMsg = MsgStoreCode sender (toBase64 E wasmCode) [] [];
            fee = upload (fees c) in
        await (getNonce E c None) (\<lambda>nonce.
        await (chainId E c) (\<lambda>chain.
        let signBytes = makeSignBytes E [storeCodeMsg] fee chain memo
                          (accountNumber nonce) (nonce_sequence nonce) in
        await (sign c signBytes) (\<lambda>signature.
        let signedTx = \<lparr>msg = [storeCodeMsg], fee = fee, memo = memo, signatures = [signature]\<rparr> in
        await (postTx E c (marshalTx E signedTx)) (\<lambda>result.
        await (sync (findAttribute E (post_logs result) ''message'' ''code_id'')) (\<lambda>codeIdAttr.
        resolve (parseInt (attr_value codeIdAttr)))))))))"

definition instantiate ::
  "('obj, 'sig, 'raw, 'log) env \<Rightarrow> 'sig CosmWasmClient \<Rightarrow> int \<Rightarrow> 'obj \<Rightarrow> string option
     \<Rightarrow> Coin list option \<Rightarrow> string promise" where
  "instantiate E c codeId initMsg memo0 transferAmount =
     (let memo = memoOrDefault memo0 in
      await (sync (client_senderAddress c)) (\<lambda>sender.
        let instantiateMsg =
              MsgInstantiateContract sender (toString codeId) initMsg (coinsOrEmpty transferAmount);
            fee = init (fees c) in
        await (getNonce E c None) (\<lambda>nonce.
        await (chainId E c) (\<lambda>chain.
        let signBytes = makeSignBytes E [instantiateMsg] fee chain memo
                          (accountNumber nonce) (nonce_sequence nonce) in
        await (sign c signBytes) (\<lambda>signature.
        let signedTx = \<lparr>msg = [instantiateMsg], fee = fee, memo = memo, signatures = [signature]\<rparr> in
        await (postTx E c (marshalTx E signedTx)) (\<lambda>result.
        await (sync (findAttribute E (post_logs result) ''message'' ''contract_address''))
          (\<lambda>contractAddressAttr.
        resolve (attr_value contractAddressAttr))))))))"

definition execute ::
  "('obj, 'sig, 'raw, 'log) env \<Rightarrow> 'sig CosmWasmClient \<Rightarrow> string \<Rightarrow> 'obj \<Rightarrow> string option
     \<Rightarrow> Coin list option \<Rightarrow> 'log ExecuteResult promise" where
  "execute E c contractAddress handleMsg memo0 transferAmount =
     (let memo = memoOrDefault memo0 in
      await (sync (client_senderAddress c)) (\<lambda>sender.
        let executeMsg =
              MsgExecuteContract sender contractAddress handleMsg (coinsOrEmpty transferAmount);
            fee = exec (fees c) in
        await (getNonce E c None) (\<lambda>nonce.
        await (chainId E c) (\<lambda>chain.
        let signBytes = makeSignBytes E [executeMsg] fee chain memo
                          (accountNumber nonce) (nonce_sequence nonce) in
        await (sign c signBytes) (\<lambda>signature.
        let signedTx = \<lparr>msg = [executeMsg], fee = fee, memo = memo, signatures = [signature]\<rparr> in
        await (postTx E c (marshalTx E signedTx)) (\<lambda>result.
        resolve \<lparr>exec_logs = post_logs result\<rparr>))))))"

definition sendTokens ::
  "('obj, 'sig, 'raw, 'log) env \<Rightarrow> 'sig CosmWasmClient \<Rightarrow> string \<Rightarrow> Coin list \<Rightarrow> string option
     \<Rightarrow> 'log PostTxResult promise" where
  "sendTokens E c recipientAddress transferAmount memo0 =
     (let memo = memoOrDefault memo0 in
      await (sync (client_senderAddress c)) (\<lambda>sender.
        let sendMsg = MsgSend sender recipientAddress transferAmount;
            fee = send (fees c) in
        await (getNonce E c None) (\<lambda>nonce.
        await (chainId E c) (\<lambda>chain.
        let signBytes = makeSignBytes E [sendMsg] fee chain memo
                          (accountNumber nonce) (nonce_sequence nonce) in
        await (sign c signBytes) (\<lambda>signature.
        let signedTx = \<lparr>msg = [sendMsg], fee = fee, memo = memo, signatures = [signature]\<rparr> in
        postTx E c (marshalTx E signedTx))))))"

section \<open>Threshold keys and signature aggregation\<close>

text \<open>
  The repository's test of \<open>makeMultisignedTx\<close> is among the sources; the functions it
  calls (\<open>createMultisigThresholdPubkey\<close>, \<open>pubkeyToAddress\<close>, \<open>makeMultisignedTx\<close>)
  are not. They are modelled from sections 3 and 4 of the specification, under the
  names the specification gives them.
\<close>

subsection \<open>Data model\<close>

text \<open>
  Modelled from the spec: the data model of section 3 (public keys, raw signatures,
  multisignature data, the signed envelope) and the error taxonomy of section 7, as far
  as aggregation uses them.
\<close>

record SinglePublicKey =
  curve :: string
  compressed_bytes :: bytes

datatype PublicKey =
    Single SinglePublicKey
  | Threshold "32 word" "PublicKey list"

type_synonym Address = string

record RawSignature =
  signer_key :: SinglePublicKey
  signature_bytes :: bytes

record MultisigSignatureData =
  bit_array :: "bool list"
  multisig_signatures :: "bytes list"

record SignedTxEnvelope =
  body_bytes :: bytes
  envelope_fee :: StdFee
  signer_infos :: "(PublicKey \<times> 64 word) list"
  envelope_signatures :: "bytes list"

datatype failure =
    InvalidThresholdError
  | UnknownSignerError
  | NoSignaturesError
  | MalformedEnvelopeError

subsection \<open>Key and address model\<close>


text \<open>
  Modelled from the spec: \<open>deriveAddress\<close> (in the repository, \<open>pubkeyToAddress\<close>,
  whose code is not among the sources): a hash-and-truncate function of the key's
  canonical encoding, then the display encoding under the network prefix. The
  specification fixes neither function, so both are parameters.
\<close>

definition deriveAddress ::
  "(PublicKey \<Rightarrow> bytes) \<Rightarrow> (string \<Rightarrow> bytes \<Rightarrow> Address) \<Rightarrow> PublicKey \<Rightarrow> string \<Rightarrow> Address" where
  "deriveAddress hashAndTruncate display k network_prefix =
     display network_prefix (hashAndTruncate k)"

subsection \<open>Signature aggregator\<close>

text \<open>Modelled from the spec: \<open>count_set_bits\<close>, the number of set positions of a bit array.\<close>

fun count_set_bits :: "bool list \<Rightarrow> nat" where
  "count_set_bits [] = 0"
| "count_set_bits (b # bs) = (if b then 1 else 0) + count_set_bits bs"

text \<open>
  Modelled from the spec: \<open>aggregate\<close> (the core of \<open>makeMultisignedTx\<close>, whose code is
  not among the sources), step by step as section 4.3 lists them. The mapping from
  addresses to raw signatures is the list of its entries, in the order the caller
  inserted them; \<open>map_of\<close> looks an address up. \<open>addressOf\<close> derives a member's address.
\<close>

fun aggregate ::
  "(PublicKey \<Rightarrow> Address) \<Rightarrow> PublicKey \<Rightarrow> (Address \<times> RawSignature) list
     \<Rightarrow> failure + MultisigSignatureData" where
  "aggregate addressOf (Threshold t ms) signatures_by_address =
     (let addrs = map addressOf ms;
          bits = map (\<lambda>a. map_of signatures_by_address a \<noteq> None) addrs;
          sigs = List.map_filter
                   (\<lambda>i. if bits ! i
                        then map_option signature_bytes (map_of signatures_by_address (addrs ! i))
                        else None)
                   [0 ..< length ms]
      in if list_ex (\<lambda>entry. fst entry \<notin> set addrs) signatures_by_address
           then Inl UnknownSignerError
         else if count_set_bits bits = 0 then Inl NoSignaturesError
         else Inr \<lparr>bit_array = bits, multisig_signatures = sigs\<rparr>)"

subsection \<open>Signing session coordinator\<close>

text \<open>
  Modelled from the spec: \<open>buildSignedEnvelope\<close> (section 4.2; its code is not among the
  sources). It asserts the positional correspondence of signer infos and signatures.
\<close>

definition buildSignedEnvelope ::
  "bytes \<Rightarrow> StdFee \<Rightarrow> (PublicKey \<times> 64 word) list \<Rightarrow> bytes list \<Rightarrow> failure + SignedTxEnvelope" where
  "buildSignedEnvelope body f infos sigs =
     (if length infos = length sigs
      then Inr \<lparr>body_bytes = body, envelope_fee = f, signer_infos = infos,
                envelope_signatures = sigs\<rparr>
      else Inl MalformedEnvelopeError)"

text \<open>
  Modelled from the spec: \<open>finalizeMultisigTx\<close> (in the repository,
  \<open>makeMultisignedTx\<close>, whose code is not among the sources): aggregation, then the
  envelope with one signer and one signature slot. The serialisation of the
  multisignature data is not fixed by the specification: it is the parameter
  \<open>serialize\<close>.
\<close>

definition finalizeMultisigTx ::
  "(MultisigSignatureData \<Rightarrow> bytes) \<Rightarrow> (PublicKey \<Rightarrow> Address) \<Rightarrow> PublicKey \<Rightarrow> 64 word
     \<Rightarrow> StdFee \<Rightarrow> bytes \<Rightarrow> (Address \<times> RawSignature) list \<Rightarrow> failure + SignedTxEnvelope" where
  "finalizeMultisigTx serialize addressOf threshold_key sq f body signatures_by_address =
     (case aggregate addressOf threshold_key signatures_by_address of
        Inl e \<Rightarrow> Inl e
      | Inr d \<Rightarrow> buildSignedEnvelope body f [(threshold_key, sq)] [serialize d])"

section \<open>Example data\<close>

text \<open>The bytes of an ASCII string, and a fee written out as text.\<close>

definition demoBytes :: "string \<Rightarrow> bytes" where
  "demoBytes str = map (\<lambda>ch. of_nat (of_char ch)) str"

definition demoShowFee :: "StdFee option \<Rightarrow> string" where
  "demoShowFee f =
     (case f of
        None \<Rightarrow> ''undefined''
      | Some x \<Rightarrow> concat (map (\<lambda>c. amount c @ denom c) (fee_amount x)) @ ''/'' @ gas x)"

text \<open>
  A node that knows one account, and answers a posted transaction according to its
  first byte: rejected with code 5, accepted with an ill-formatted hash, accepted with
  code 0, accepted without a code. Its sign bytes and its marshalled transaction spell
  the fee they are given.
\<close>

definition demoNode :: "(unit, string, string, string) env" where
  "demoNode =
     \<lparr>authAccounts = (\<lambda>a. if a = ''cosmos1sender''
          then Inr \<lparr>address = ''cosmos1sender'', coins = [], public_key = [],
                    account_number = 7, sequence = 3\<rparr>
          else Inr \<lparr>address = [], coins = [], public_key = [],
                    account_number = 0, sequence = 0\<rparr>),
      nodeInfo = Inr ''testing'',
      rest_postTx = (\<lambda>tx.
          if tx = [0] then Inr \<lparr>code = Some 5, raw_log = Some ''insufficient fee'',
                                 txhash = [], logs = []\<rparr>
          else if tx = [1] then Inr \<lparr>code = Some 0, raw_log = Some ''[]'',
                                 txhash = ''ab12'', logs = ''[]''\<rparr>
          else if tx = [2] then Inr \<lparr>code = Some 0, raw_log = Some ''[]'',
                                 txhash = ''AB12'', logs = ''[]''\<rparr>
          else Inr \<lparr>code = None, raw_log = None, txhash = ''CD34'', logs = ''[]''\<rparr>),
      makeSignBytes = (\<lambda>ms f chain m an sq.
          demoBytes (demoShowFee f @ ''|'' @ chain @ ''|'' @ toString an @ ''|'' @ toString sq)),
      marshalTx = (\<lambda>t.
          demoBytes (demoShowFee (fee t) @ ''|'' @ memo t @ ''|'' @ concat (signatures t))),
      parseLogs = (\<lambda>raw. Inr (Some [raw])),
      findAttribute = (\<lambda>ls ev k. Inr \<lparr>attr_key = k, attr_value = ''42''\<rparr>),
      toBase64 = (\<lambda>b. ''AA=='')\<rparr>"

definition demoReadOnly :: "string CosmWasmClient" where
  "demoReadOnly = makeReadOnly ''http://localhost:1317''"

definition demoSigner :: "bytes \<Rightarrow> error + string" where
  "demoSigner b = Inr ''signature''"

text \<open>
  Five single keys in ascending order of their bytes, the 2-of-5 key over them, and an
  address derivation that shows the low half of each byte.
\<close>

definition member0 :: SinglePublicKey where
  "member0 = \<lparr>curve = ''secp256k1'', compressed_bytes = [0x02, 0x61]\<rparr>"

definition member1 :: SinglePublicKey where
  "member1 = \<lparr>curve = ''secp256k1'', compressed_bytes = [0x02, 0x62]\<rparr>"

definition member2 :: SinglePublicKey where
  "member2 = \<lparr>curve = ''secp256k1'', compressed_bytes = [0x02, 0xE3]\<rparr>"

definition member3 :: SinglePublicKey where
  "member3 = \<lparr>curve = ''secp256k1'', compressed_bytes = [0x03, 0x64]\<rparr>"

definition member4 :: SinglePublicKey where
  "member4 = \<lparr>curve = ''secp256k1'', compressed_bytes = [0x03, 0x65]\<rparr>"


fun demoHash :: "PublicKey \<Rightarrow> bytes" where
  "demoHash (Single s) = compressed_bytes s"
| "demoHash (Threshold t ms) = []"

definition demoDisplay :: "string \<Rightarrow> bytes \<Rightarrow> Address" where
  "demoDisplay p b = p @ ''1'' @ map (\<lambda>w. ''0123456789abcdef'' ! (unat w mod 16)) b"

definition demoAddressOf :: "PublicKey \<Rightarrow> Address" where
  "demoAddressOf k = deriveAddress demoHash demoDisplay k ''cosmos''"

definition demoKey :: PublicKey where
  "demoKey = Threshold 2 (map Single [member0, member1, member2, member3, member4])"

definition demoSignature :: "SinglePublicKey \<Rightarrow> RawSignature" where
  "demoSignature k = \<lparr>signer_key = k, signature_bytes = 0xAA # compressed_bytes k\<rparr>"

definition demoSerialize :: "MultisigSignatureData \<Rightarrow> bytes" where
  "demoSerialize d = map (\<lambda>b. if b then 1 else 0) (bit_array d) @ concat (multisig_signatures d)"

section \<open>Auxiliary lemmas\<close>

subsection \<open>The client\<close>

lemma defaultFees_values:
  "defaultFees =
     \<lparr>upload = \<lparr>fee_amount = [\<lparr>amount = ''25000'', denom = ''ucosm''\<rparr>], gas = ''1000000''\<rparr>,
      init = \<lparr>fee_amount = [\<lparr>amount = ''12500'', denom = ''ucosm''\<rparr>], gas = ''500000''\<rparr>,
      exec = \<lparr>fee_amount = [\<lparr>amount = ''5000'', denom = ''ucosm''\<rparr>], gas = ''200000''\<rparr>,
      send = \<lparr>fee_amount = [\<lparr>amount = ''2000'', denom = ''ucosm''\<rparr>], gas = ''80000''\<rparr>\<rparr>"
  by (simp add: defaultFees_def singleAmount_def toString_def digitsOf.simps)

lemmas promise_defs = await_def resolve_def reject_def sync_def request_def

lemma await_sync_Inr: "await (sync (Inr x)) f tr = f x tr"
  by (simp add: await_def sync_def)

lemma readOnly_senderAddress:
  "client_senderAddress (makeReadOnly url) = Inl (Error ''Signing data not set in this client'')"
  by (simp add: client_senderAddress_def makeReadOnly_def newCosmWasmClient_def)

lemma postTx_calls: "snd (postTx E c tx tr) = tr @ [PostTx tx]"
  by (simp add: postTx_def promise_defs split: sum.splits prod.splits)

lemma await_sync_calls: "snd (await (sync r) (\<lambda>x. resolve (f x)) tr) = tr"
  by (simp add: promise_defs split: sum.splits)

lemma await_postTx_calls:
  "snd (await (postTx E c tx) (\<lambda>r. await (sync (g r)) (\<lambda>x. resolve (f x))) tr) = tr @ [PostTx tx]"
proof (cases "postTx E c tx tr")
  case (Pair res tr')
  have tr': "tr' = tr @ [PostTx tx]"
    using postTx_calls [of E c tx tr] Pair by simp
  show ?thesis
  proof (cases res)
    case (Inl e)
    with Pair tr' show ?thesis by (simp add: await_def)
  next
    case (Inr r)
    have "await (postTx E c tx) (\<lambda>r. await (sync (g r)) (\<lambda>x. resolve (f x))) tr
            = await (sync (g r)) (\<lambda>x. resolve (f x)) tr'"
      using Pair Inr by (simp add: await_def)
    then show ?thesis using tr' by (simp add: await_sync_calls)
  qed
qed

lemma await_postTx_resolve_calls:
  "snd (await (postTx E c tx) (\<lambda>r. resolve (f r)) tr) = tr @ [PostTx tx]"
  using postTx_calls [of E c tx tr]
  by (cases "postTx E c tx tr") (auto simp add: await_def resolve_def split: sum.splits)

lemma signing_steps:
  assumes "signingData c = Some \<lparr>senderAddress = s, signCallback = cb\<rparr>"
    and "authAccounts E s = Inr v" and "address v \<noteq> []" and "nodeInfo E = Inr chain"
    and "\<And>b. cb b = Inr (sg b)"
  shows "await (getNonce E c None) (\<lambda>nonce. await (chainId E c) (\<lambda>ch.
           await (sign c (mk nonce ch)) (\<lambda>signature. k nonce ch signature))) tr
         = k \<lparr>accountNumber = account_number v, nonce_sequence = sequence v\<rparr> chain
             (sg (mk \<lparr>accountNumber = account_number v, nonce_sequence = sequence v\<rparr> chain))
             (tr @ [AuthAccounts s, NodeInfo,
                    SignCallback (mk \<lparr>accountNumber = account_number v,
                                      nonce_sequence = sequence v\<rparr> chain)])"
  using assms
  by (simp add: getNonce_def getAccount_def chainId_def sign_def client_senderAddress_def
      client_signCallback_def promise_defs)

lemma writable_signingData:
  "signingData (makeWritable url s cb t) = Some \<lparr>senderAddress = s, signCallback = cb\<rparr>"
  by (simp add: makeWritable_def newCosmWasmClient_def)

lemma writable_senderAddress: "client_senderAddress (makeWritable url s cb t) = Inr s"
  by (simp add: client_senderAddress_def writable_signingData)

lemma writable_default_fees:
  "fees (makeWritable url s cb None) =
     \<lparr>upload = Some (upload defaultFees), init = Some (init defaultFees),
      exec = Some (exec defaultFees), send = Some (send defaultFees)\<rparr>"
  by (simp add: makeWritable_def newCosmWasmClient_def spreadFees_def emptyFeeTable_def)

lemma writable_custom_fees:
  "fees (makeWritable url s cb (Some t)) =
     \<lparr>upload = (case partial_upload t of Absent \<Rightarrow> Some (upload defaultFees) | Present v \<Rightarrow> v),
      init = (case partial_init t of Absent \<Rightarrow> Some (init defaultFees) | Present v \<Rightarrow> v),
      exec = (case partial_exec t of Absent \<Rightarrow> Some (exec defaultFees) | Present v \<Rightarrow> v),
      send = (case partial_send t of Absent \<Rightarrow> Some (send defaultFees) | Present v \<Rightarrow> v)\<rparr>"
  by (simp add: makeWritable_def newCosmWasmClient_def spreadFees_def)

lemma sendTokens_calls:
  assumes "authAccounts E s = Inr v" and "address v \<noteq> []" and "nodeInfo E = Inr chain"
    and "\<And>b. cb b = Inr (sg b)"
  shows "snd (sendTokens E (makeWritable url s cb t) recipient amt memo0 tr) =
     (let c = makeWritable url s cb t; m = [MsgSend s recipient amt]; f = send (fees c);
          b = makeSignBytes E m f chain (memoOrDefault memo0) (account_number v) (sequence v)
      in tr @ [AuthAccounts s, NodeInfo, SignCallback b,
               PostTx (marshalTx E \<lparr>msg = m, fee = f, memo = memoOrDefault memo0,
                                    signatures = [sg b]\<rparr>)])"
  by (simp add: sendTokens_def Let_def writable_senderAddress await_sync_Inr
      signing_steps [OF writable_signingData assms] postTx_calls)

lemma execute_calls:
  assumes "authAccounts E s = Inr v" and "address v \<noteq> []" and "nodeInfo E = Inr chain"
    and "\<And>b. cb b = Inr (sg b)"
  shows "snd (execute E (makeWritable url s cb t) contract handleMsg memo0 funds tr) =
     (let c = makeWritable url s cb t;
          m = [MsgExecuteContract s contract handleMsg (coinsOrEmpty funds)]; f = exec (fees c);
          b = makeSignBytes E m f chain (memoOrDefault memo0) (account_number v) (sequence v)
      in tr @ [AuthAccounts s, NodeInfo, SignCallback b,
               PostTx (marshalTx E \<lparr>msg = m, fee = f, memo = memoOrDefault memo0,
                                    signatures = [sg b]\<rparr>)])"
  by (simp add: execute_def Let_def writable_senderAddress await_sync_Inr
      signing_steps [OF writable_signingData assms] await_postTx_resolve_calls)

lemma instantiate_calls:
  assumes "authAccounts E s = Inr v" and "address v \<noteq> []" and "nodeInfo E = Inr chain"
    and "\<And>b. cb b = Inr (sg b)"
  shows "snd (instantiate E (makeWritable url s cb t) codeId initMsg memo0 funds tr) =
     (let c = makeWritable url s cb t;
          m = [MsgInstantiateContract s (toString codeId) initMsg (coinsOrEmpty funds)];
          f = init (fees c);
          b = makeSignBytes E m f chain (memoOrDefault memo0) (account_number v) (sequence v)
      in tr @ [AuthAccounts s, NodeInfo, SignCallback b,
               PostTx (marshalTx E \<lparr>msg = m, fee = f, memo = memoOrDefault memo0,
                                    signatures = [sg b]\<rparr>)])"
  by (simp add: instantiate_def Let_def writable_senderAddress await_sync_Inr
      signing_steps [OF writable_signingData assms] await_postTx_calls)

lemma upload_calls:
  assumes "authAccounts E s = Inr v" and "address v \<noteq> []" and "nodeInfo E = Inr chain"
    and "\<And>b. cb b = Inr (sg b)"
  shows "snd (client_upload E (makeWritable url s cb t) wasmCode memo0 tr) =
     (let c = makeWritable url s cb t;
          m = [MsgStoreCode s (toBase64 E wasmCode) [] []]; f = upload (fees c);
          b = makeSignBytes E m f chain (memoOrDefault memo0) (account_number v) (sequence v)
      in tr @ [AuthAccounts s, NodeInfo, SignCallback b,
               PostTx (marshalTx E \<lparr>msg = m, fee = f, memo = memoOrDefault memo0,
                                    signatures = [sg b]\<rparr>)])"
  by (simp add: client_upload_def Let_def writable_senderAddress await_sync_Inr
      signing_steps [OF writable_signingData assms] await_postTx_calls)

subsection \<open>Sorting and aggregation\<close>




lemma count_set_bits_append:
  "count_set_bits (bs @ cs) = count_set_bits bs + count_set_bits cs"
  by (induction bs) simp_all

lemma count_set_bits_positions:
  "length (filter (\<lambda>i. bs ! i) [0 ..< length bs]) = count_set_bits bs"
proof (induction bs rule: rev_induct)
  case Nil
  then show ?case by simp
next
  case (snoc b bs)
  have "filter (\<lambda>i. (bs @ [b]) ! i) [0 ..< length bs] = filter (\<lambda>i. bs ! i) [0 ..< length bs]"
    by (rule filter_cong) (simp_all add: nth_append)
  with snoc.IH show ?case
    by (simp add: count_set_bits_append)
qed

lemma count_set_bits_zero: "count_set_bits bs = 0 \<longleftrightarrow> (\<forall>b\<in>set bs. \<not> b)"
  by (induction bs) auto

lemma aggregate_Inr:
  assumes "aggregate A (Threshold t ms) sigs = Inr r"
  shows "bit_array r = map (\<lambda>m. map_of sigs (A m) \<noteq> None) ms"
    and "multisig_signatures r =
           List.map_filter
             (\<lambda>i. if bit_array r ! i
                  then map_option signature_bytes (map_of sigs (map A ms ! i))
                  else None)
             [0 ..< length ms]"
  using assms by (auto simp add: Let_def comp_def split: if_splits)

lemma collected_positions:
  assumes "bs = map (\<lambda>m. map_of sigs (A m) \<noteq> None) ms"
  shows "List.map_filter
           (\<lambda>i. if bs ! i then map_option signature_bytes (map_of sigs (map A ms ! i)) else None)
           [0 ..< length ms]
         = map (\<lambda>i. signature_bytes (the (map_of sigs (A (ms ! i)))))
             (filter (\<lambda>i. bs ! i) [0 ..< length ms])"
proof -
  have "filter (\<lambda>i. (if bs ! i then map_option signature_bytes (map_of sigs (map A ms ! i))
                       else None) \<noteq> None) [0 ..< length ms]
        = filter (\<lambda>i. bs ! i) [0 ..< length ms]"
    by (rule filter_cong) (auto simp add: assms)
  moreover have "map (the \<circ> (\<lambda>i. if bs ! i
                        then map_option signature_bytes (map_of sigs (map A ms ! i)) else None))
                   (filter (\<lambda>i. bs ! i) [0 ..< length ms])
        = map (\<lambda>i. signature_bytes (the (map_of sigs (A (ms ! i)))))
            (filter (\<lambda>i. bs ! i) [0 ..< length ms])"
    by (rule map_cong) (auto simp add: assms option.map_sel)
  ultimately show ?thesis
    by (simp add: List.map_filter_def)
qed

lemma aggregate_depends_on_entries:
  assumes "map_of sigs' = map_of sigs" and "set sigs' = set sigs"
  shows "aggregate A (Threshold t ms) sigs' = aggregate A (Threshold t ms) sigs"
  unfolding aggregate.simps list_ex_iff assms by (rule refl)

lemma permuted_entries:
  assumes "distinct (map fst sigs)" and "mset sigs' = mset sigs"
  shows "map_of sigs' = map_of sigs" and "set sigs' = set sigs"
proof -
  show s: "set sigs' = set sigs"
    using assms(2) by (rule mset_eq_setD)
  have "mset (map fst sigs') = mset (map fst sigs)"
    using assms(2) by simp
  then have "distinct (map fst sigs')"
    using assms(1) mset_eq_imp_distinct_iff by blast
  then show "map_of sigs' = map_of sigs"
    using assms(1) s by (simp add: map_of_inject_set)
qed

section \<open>Properties of the client\<close>

text \<open>
  C1 (as the code has it). For every response of the node with a result code other than
  0, \<open>postTx\<close> does not return a result value: it throws an \<open>Error\<close> (the promise is
  rejected), after the one request. The message of the error is
  \<open>Error when posting tx. Code: <code>; Raw log: <raw_log>\<close>, so the remote reason
  string ends the message unchanged.
\<close>

theorem postTx_rejection_thrown:
  assumes "rest_postTx E tx = Inr result" and "code result = Some n" and "n \<noteq> 0"
  shows "postTx E c tx tr =
     (Inl (Error (''Error when posting tx. Code: '' @ toString n @ ''; Raw log: ''
                  @ showString (raw_log result))),
      tr @ [PostTx tx])"
  using assms by (simp add: postTx_def promise_defs truthyCode_def showCode_def)

text \<open>The node of the example rejects the transaction \<open>[0]\<close> with code 5.\<close>

theorem postTx_rejection_thrown_witness:
  "rest_postTx demoNode [0]
     = Inr \<lparr>code = Some 5, raw_log = Some ''insufficient fee'', txhash = [], logs = []\<rparr>
   \<and> (5::int) \<noteq> 0
   \<and> postTx demoNode demoReadOnly [0] []
       = (Inl (Error ''Error when posting tx. Code: 5; Raw log: insufficient fee''), [PostTx [0]])"
  using postTx_rejection_thrown
    [of demoNode "[0]"
        "\<lparr>code = Some 5, raw_log = Some ''insufficient fee'', txhash = [], logs = []\<rparr>"
        5 demoReadOnly "[]"]
  by (simp add: demoNode_def toString_def digitsOf.simps showString_def)

text \<open>
  The rejection is an exception, not a returned failure value: the outcome of \<open>postTx\<close>
  on the rejected transaction is a thrown \<open>Error\<close>.
\<close>

theorem postTx_rejection_is_exception:
  "fst (postTx demoNode demoReadOnly [0] [])
     = Inl (Error ''Error when posting tx. Code: 5; Raw log: insufficient fee'')"
  by (simp add: postTx_def promise_defs demoNode_def truthyCode_def showCode_def showString_def
      toString_def digitsOf.simps)

text \<open>
  C2 (as the code has it). For every response of the node, \<open>postTx\<close> returns a result
  exactly when the result code is 0 or absent, the transaction hash is a non-empty
  sequence of pairs of upper-case hex digits, and the logs parse; for every other code it
  throws the error whose message carries the code and the raw log. A returned result
  holds the raw log (empty when absent) and the transaction hash of the response.
\<close>

theorem postTx_classification:
  assumes "rest_postTx E tx = Inr result"
  shows "((\<exists>r. fst (postTx E c tx tr) = Inr r) \<longleftrightarrow>
            (code result = None \<or> code result = Some 0)
            \<and> matchesHexPairs (txhash result)
            \<and> (\<exists>p. parseLogs E (logs result) = Inr p))
       \<and> (\<forall>n. code result = Some n \<and> n \<noteq> 0 \<longrightarrow>
             fst (postTx E c tx tr) =
               Inl (Error (''Error when posting tx. Code: '' @ toString n @ ''; Raw log: ''
                           @ showString (raw_log result))))
       \<and> (\<forall>r. fst (postTx E c tx tr) = Inr r \<longrightarrow>
             rawLog r = (case raw_log result of None \<Rightarrow> [] | Some s \<Rightarrow> s)
             \<and> transactionHash r = txhash result)"
  using assms
  by (cases "code result"; cases "parseLogs E (logs result)")
     (auto simp add: postTx_def promise_defs truthyCode_def showCode_def)

text \<open>The node of the example accepts the transaction \<open>[2]\<close> with code 0 and a proper hash.\<close>

theorem postTx_classification_witness:
  "rest_postTx demoNode [2]
     = Inr \<lparr>code = Some 0, raw_log = Some ''[]'', txhash = ''AB12'', logs = ''[]''\<rparr>
   \<and> (\<exists>r. fst (postTx demoNode demoReadOnly [2] []) = Inr r)"
  using postTx_classification
    [of demoNode "[2]"
        "\<lparr>code = Some 0, raw_log = Some ''[]'', txhash = ''AB12'', logs = ''[]''\<rparr>"
        demoReadOnly "[]"]
  by (simp add: demoNode_def isUpperHexDigit_def)

text \<open>
  A response with code 0 whose hash is in lower case is not returned as a success: the
  guard on the hash throws.
\<close>

theorem postTx_code_zero_fails:
  "rest_postTx demoNode [1]
     = Inr \<lparr>code = Some 0, raw_log = Some ''[]'', txhash = ''ab12'', logs = ''[]''\<rparr>
   \<and> fst (postTx demoNode demoReadOnly [1] [])
       = Inl (Error ''Received ill-formatted txhash. Must be non-empty upper-case hex'')"
  by (simp add: postTx_def promise_defs demoNode_def truthyCode_def isUpperHexDigit_def)

text \<open>
  C3. For every address (a non-empty string) for which the node answers: when no
  account is found there (the answer has an empty address), \<open>getNonce\<close> throws and gives
  no result; when the account exists, \<open>getNonce\<close> returns exactly its \<open>account_number\<close>
  and \<open>sequence\<close>. Either way one request is made. (An empty string is no address: the
  source treats it as an absent argument and looks up the sender.)
\<close>

theorem getNonce_account:
  assumes "a \<noteq> []" and "authAccounts E a = Inr v"
  shows "getNonce E c (Some a) tr =
     (if address v = []
      then Inl (Error ''Account does not exist on chain. Send some tokens there before trying to query nonces.'')
      else Inr \<lparr>accountNumber = account_number v, nonce_sequence = sequence v\<rparr>,
      tr @ [AuthAccounts a])"
  using assms by (simp add: getNonce_def getAccount_def promise_defs)

theorem getNonce_account_witness:
  "''cosmos1sender'' \<noteq> []
   \<and> authAccounts demoNode ''cosmos1sender''
       = Inr \<lparr>address = ''cosmos1sender'', coins = [], public_key = [],
              account_number = 7, sequence = 3\<rparr>
   \<and> getNonce demoNode demoReadOnly (Some ''cosmos1sender'') []
       = (Inr \<lparr>accountNumber = 7, nonce_sequence = 3\<rparr>, [AuthAccounts ''cosmos1sender''])
   \<and> getNonce demoNode demoReadOnly (Some ''cosmos1nobody'') []
       = (Inl (Error ''Account does not exist on chain. Send some tokens there before trying to query nonces.''),
          [AuthAccounts ''cosmos1nobody''])"
  using getNonce_account
    [of "''cosmos1sender''" demoNode
        "\<lparr>address = ''cosmos1sender'', coins = [], public_key = [],
          account_number = 7, sequence = 3\<rparr>" demoReadOnly "[]"]
    getNonce_account
    [of "''cosmos1nobody''" demoNode
        "\<lparr>address = [], coins = [], public_key = [], account_number = 0, sequence = 0\<rparr>"
        demoReadOnly "[]"]
  by (simp add: demoNode_def)

text \<open>
  C9. The fee table of a client made by \<open>makeWritable\<close> with a custom table is the
  default table with each of \<open>upload\<close>, \<open>init\<close>, \<open>exec\<close>, \<open>send\<close> replaced by the value
  of the custom key when the key is present (a fee or \<open>undefined\<close>), and left as the
  default when the key is absent; without a custom table it is the default table. Then
  every operation signs and posts its transaction with its default fee: \<open>sendTokens\<close>
  with 2000 ucosm and gas 80000, \<open>upload\<close> with 25000 ucosm and gas 1000000,
  \<open>instantiate\<close> with 12500 ucosm and gas 500000, \<open>execute\<close> with 5000 ucosm and gas
  200000. The fee an operation uses is read from the bytes it has signed and the
  transaction it posts, for a sender whose account exists, a node that tells its chain
  id and a callback that signs.
\<close>

theorem fee_table_defaults_overridden:
  assumes "authAccounts E s = Inr v" and "address v \<noteq> []" and "nodeInfo E = Inr chain"
    and "\<And>b. cb b = Inr (sg b)"
  shows "fees (makeWritable url s cb (Some t)) =
           \<lparr>upload = (case partial_upload t of Absent \<Rightarrow> Some (upload defaultFees) | Present x \<Rightarrow> x),
            init = (case partial_init t of Absent \<Rightarrow> Some (init defaultFees) | Present x \<Rightarrow> x),
            exec = (case partial_exec t of Absent \<Rightarrow> Some (exec defaultFees) | Present x \<Rightarrow> x),
            send = (case partial_send t of Absent \<Rightarrow> Some (send defaultFees) | Present x \<Rightarrow> x)\<rparr>
       \<and> defaultFees =
           \<lparr>upload = \<lparr>fee_amount = [\<lparr>amount = ''25000'', denom = ''ucosm''\<rparr>], gas = ''1000000''\<rparr>,
            init = \<lparr>fee_amount = [\<lparr>amount = ''12500'', denom = ''ucosm''\<rparr>], gas = ''500000''\<rparr>,
            exec = \<lparr>fee_amount = [\<lparr>amount = ''5000'', denom = ''ucosm''\<rparr>], gas = ''200000''\<rparr>,
            send = \<lparr>fee_amount = [\<lparr>amount = ''2000'', denom = ''ucosm''\<rparr>], gas = ''80000''\<rparr>\<rparr>
       \<and> fees (makeWritable url s cb None) =
           \<lparr>upload = Some (upload defaultFees), init = Some (init defaultFees),
            exec = Some (exec defaultFees), send = Some (send defaultFees)\<rparr>
       \<and> snd (sendTokens E (makeWritable url s cb None) recipient amt memo0 tr) =
           (let m = [MsgSend s recipient amt];
                f = Some \<lparr>fee_amount = [\<lparr>amount = ''2000'', denom = ''ucosm''\<rparr>], gas = ''80000''\<rparr>;
                b = makeSignBytes E m f chain (memoOrDefault memo0) (account_number v) (sequence v)
            in tr @ [AuthAccounts s, NodeInfo, SignCallback b,
                     PostTx (marshalTx E \<lparr>msg = m, fee = f, memo = memoOrDefault memo0,
                                          signatures = [sg b]\<rparr>)])
       \<and> snd (client_upload E (makeWritable url s cb None) wasmCode memo0 tr) =
           (let m = [MsgStoreCode s (toBase64 E wasmCode) [] []];
                f = Some \<lparr>fee_amount = [\<lparr>amount = ''25000'', denom = ''ucosm''\<rparr>], gas = ''1000000''\<rparr>;
                b = makeSignBytes E m f chain (memoOrDefault memo0) (account_number v) (sequence v)
            in tr @ [AuthAccounts s, NodeInfo, SignCallback b,
                     PostTx (marshalTx E \<lparr>msg = m, fee = f, memo = memoOrDefault memo0,
                                          signatures = [sg b]\<rparr>)])
       \<and> snd (instantiate E (makeWritable url s cb None) codeId initMsg memo0 funds tr) =
           (let m = [MsgInstantiateContract s (toString codeId) initMsg (coinsOrEmpty funds)];
                f = Some \<lparr>fee_amount = [\<lparr>amount = ''12500'', denom = ''ucosm''\<rparr>], gas = ''500000''\<rparr>;
                b = makeSignBytes E m f chain (memoOrDefault memo0) (account_number v) (sequence v)
            in tr @ [AuthAccounts s, NodeInfo, SignCallback b,
                     PostTx (marshalTx E \<lparr>msg = m, fee = f, memo = memoOrDefault memo0,
                                          signatures = [sg b]\<rparr>)])
       \<and> snd (execute E (makeWritable url s cb None) contract handleMsg memo0 funds tr) =
           (let m = [MsgExecuteContract s contract handleMsg (coinsOrEmpty funds)];
                f = Some \<lparr>fee_amount = [\<lparr>amount = ''5000'', denom = ''ucosm''\<rparr>], gas = ''200000''\<rparr>;
                b = makeSignBytes E m f chain (memoOrDefault memo0) (account_number v) (sequence v)
            in tr @ [AuthAccounts s, NodeInfo, SignCallback b,
                     PostTx (marshalTx E \<lparr>msg = m, fee = f, memo = memoOrDefault memo0,
                                          signatures = [sg b]\<rparr>)])"
proof -
  have sendFee: "send defaultFees
      = \<lparr>fee_amount = [\<lparr>amount = ''2000'', denom = ''ucosm''\<rparr>], gas = ''80000''\<rparr>"
    and uploadFee: "upload defaultFees
      = \<lparr>fee_amount = [\<lparr>amount = ''25000'', denom = ''ucosm''\<rparr>], gas = ''1000000''\<rparr>"
    and initFee: "init defaultFees
      = \<lparr>fee_amount = [\<lparr>amount = ''12500'', denom = ''ucosm''\<rparr>], gas = ''500000''\<rparr>"
    and execFee: "exec defaultFees
      = \<lparr>fee_amount = [\<lparr>amount = ''5000'', denom = ''ucosm''\<rparr>], gas = ''200000''\<rparr>"
    by (simp_all add: defaultFees_values)
  have "snd (sendTokens E (makeWritable url s cb None) recipient amt memo0 tr) =
           (let m = [MsgSend s recipient amt];
                f = Some \<lparr>fee_amount = [\<lparr>amount = ''2000'', denom = ''ucosm''\<rparr>], gas = ''80000''\<rparr>;
                b = makeSignBytes E m f chain (memoOrDefault memo0) (account_number v) (sequence v)
            in tr @ [AuthAccounts s, NodeInfo, SignCallback b,
                     PostTx (marshalTx E \<lparr>msg = m, fee = f, memo = memoOrDefault memo0,
                                          signatures = [sg b]\<rparr>)])"
    by (simp add: sendTokens_calls [OF assms] writable_default_fees sendFee Let_def)
  moreover have "snd (client_upload E (makeWritable url s cb None) wasmCode memo0 tr) =
           (let m = [MsgStoreCode s (toBase64 E wasmCode) [] []];
                f = Some \<lparr>fee_amount = [\<lparr>amount = ''25000'', denom = ''ucosm''\<rparr>], gas = ''1000000''\<rparr>;
                b = makeSignBytes E m f chain (memoOrDefault memo0) (account_number v) (sequence v)
            in tr @ [AuthAccounts s, NodeInfo, SignCallback b,
                     PostTx (marshalTx E \<lparr>msg = m, fee = f, memo = memoOrDefault memo0,
                                          signatures = [sg b]\<rparr>)])"
    by (simp add: upload_calls [OF assms] writable_default_fees uploadFee Let_def)
  moreover have "snd (instantiate E (makeWritable url s cb None) codeId initMsg memo0 funds tr) =
           (let m = [MsgInstantiateContract s (toString codeId) initMsg (coinsOrEmpty funds)];
                f = Some \<lparr>fee_amount = [\<lparr>amount = ''12500'', denom = ''ucosm''\<rparr>], gas = ''500000''\<rparr>;
                b = makeSignBytes E m f chain (memoOrDefault memo0) (account_number v) (sequence v)
            in tr @ [AuthAccounts s, NodeInfo, SignCallback b,
                     PostTx (marshalTx E \<lparr>msg = m, fee = f, memo = memoOrDefault memo0,
                                          signatures = [sg b]\<rparr>)])"
    by (simp add: instantiate_calls [OF assms] writable_default_fees initFee Let_def)
  moreover have "snd (execute E (makeWritable url s cb None) contract handleMsg memo0 funds tr) =
           (let m = [MsgExecuteContract s contract handleMsg (coinsOrEmpty funds)];
                f = Some \<lparr>fee_amount = [\<lparr>amount = ''5000'', denom = ''ucosm''\<rparr>], gas = ''200000''\<rparr>;
                b = makeSignBytes E m f chain (memoOrDefault memo0) (account_number v) (sequence v)
            in tr @ [AuthAccounts s, NodeInfo, SignCallback b,
                     PostTx (marshalTx E \<lparr>msg = m, fee = f, memo = memoOrDefault memo0,
                                          signatures = [sg b]\<rparr>)])"
    by (simp add: execute_calls [OF assms] writable_default_fees execFee Let_def)
  moreover note writable_custom_fees [of url s cb t] writable_default_fees [of url s cb]
    defaultFees_values
  ultimately show ?thesis
    by (intro conjI)
qed

text \<open>
  A client of the example's sender with no custom table: the bytes it signs and the
  transaction it posts spell the default fee of \<open>sendTokens\<close>. And one whose custom
  table sets \<open>send\<close> to a fee and \<open>init\<close> to \<open>undefined\<close>, leaving the other keys out.
\<close>

theorem fee_table_defaults_overridden_witness:
  "authAccounts demoNode ''cosmos1sender''
     = Inr \<lparr>address = ''cosmos1sender'', coins = [], public_key = [],
            account_number = 7, sequence = 3\<rparr>
   \<and> nodeInfo demoNode = Inr ''testing''
   \<and> snd (sendTokens demoNode
            (makeWritable ''http://localhost:1317'' ''cosmos1sender'' demoSigner None)
            ''cosmos1rcpt'' [\<lparr>amount = ''1234'', denom = ''ucosm''\<rparr>] None [])
       = [AuthAccounts ''cosmos1sender'', NodeInfo,
          SignCallback (demoBytes ''2000ucosm/80000|testing|7|3''),
          PostTx (demoBytes ''2000ucosm/80000||signature'')]
   \<and> fees (makeWritable ''http://localhost:1317'' ''cosmos1sender'' demoSigner
        (Some \<lparr>partial_upload = Absent, partial_init = Present None, partial_exec = Absent,
               partial_send = Present (Some \<lparr>fee_amount = [], gas = ''1''\<rparr>)\<rparr>))
       = \<lparr>upload = Some \<lparr>fee_amount = [\<lparr>amount = ''25000'', denom = ''ucosm''\<rparr>],
                           gas = ''1000000''\<rparr>,
          init = None,
          exec = Some \<lparr>fee_amount = [\<lparr>amount = ''5000'', denom = ''ucosm''\<rparr>], gas = ''200000''\<rparr>,
          send = Some \<lparr>fee_amount = [], gas = ''1''\<rparr>\<rparr>"
proof -
  have acc: "authAccounts demoNode ''cosmos1sender''
     = Inr \<lparr>address = ''cosmos1sender'', coins = [], public_key = [],
            account_number = 7, sequence = 3\<rparr>"
    by (simp add: demoNode_def)
  have found: "address \<lparr>address = ''cosmos1sender'', coins = [], public_key = [],
            account_number = 7, sequence = 3\<rparr> \<noteq> []"
    by simp
  have chain: "nodeInfo demoNode = Inr ''testing''"
    by (simp add: demoNode_def)
  have signs: "demoSigner b = Inr ''signature''" for b
    by (simp add: demoSigner_def)
  have signed: "makeSignBytes demoNode m
        (Some \<lparr>fee_amount = [\<lparr>amount = ''2000'', denom = ''ucosm''\<rparr>], gas = ''80000''\<rparr>)
        ''testing'' [] 7 3 = demoBytes ''2000ucosm/80000|testing|7|3''" for m
    by (simp add: demoNode_def demoShowFee_def toString_def digitsOf.simps)
  have posted: "marshalTx demoNode
        \<lparr>msg = m,
         fee = Some \<lparr>fee_amount = [\<lparr>amount = ''2000'', denom = ''ucosm''\<rparr>], gas = ''80000''\<rparr>,
         memo = [], signatures = [''signature'']\<rparr> = demoBytes ''2000ucosm/80000||signature''" for m
    by (simp add: demoNode_def demoShowFee_def)
  show ?thesis
    using fee_table_defaults_overridden
      [where cb = demoSigner and sg = "\<lambda>b. ''signature''" and url = "''http://localhost:1317''"
          and t = "\<lparr>partial_upload = Absent, partial_init = Present None, partial_exec = Absent,
                    partial_send = Present (Some \<lparr>fee_amount = [], gas = ''1''\<rparr>)\<rparr>"
          and recipient = "''cosmos1rcpt''" and amt = "[\<lparr>amount = ''1234'', denom = ''ucosm''\<rparr>]"
          and ?memo0.0 = None and tr = "[]" and wasmCode = "[]" and codeId = 1 and initMsg = "()"
          and funds = None and contract = "[]" and handleMsg = "()",
       OF acc found chain signs]
      acc chain
    by (simp add: Let_def memoOrDefault_def defaultFees_values signed posted)
qed

text \<open>
  C10. On a client made by \<open>makeReadOnly\<close>, each of \<open>upload\<close>, \<open>instantiate\<close>,
  \<open>execute\<close>, \<open>sendTokens\<close>, and \<open>getNonce\<close> and \<open>getAccount\<close> without an address, throws
  the error \<open>Signing data not set in this client\<close> and makes no call at all: no request
  to the node and no call of a signing callback is added to the calls made before.
\<close>

theorem readOnly_signing_fails:
  fixes E :: "('obj, 'sig, 'raw, 'log) env"
  shows "client_upload E (makeReadOnly url) wasmCode memo0 tr
           = (Inl (Error ''Signing data not set in this client''), tr)
       \<and> instantiate E (makeReadOnly url) codeId initMsg memo0 funds tr
           = (Inl (Error ''Signing data not set in this client''), tr)
       \<and> execute E (makeReadOnly url) contractAddress handleMsg memo0 funds tr
           = (Inl (Error ''Signing data not set in this client''), tr)
       \<and> sendTokens E (makeReadOnly url) recipient amt memo0 tr
           = (Inl (Error ''Signing data not set in this client''), tr)
       \<and> getNonce E (makeReadOnly url) None tr
           = (Inl (Error ''Signing data not set in this client''), tr)
       \<and> getAccount E (makeReadOnly url) None tr
           = (Inl (Error ''Signing data not set in this client''), tr)"
  by (simp add: client_upload_def instantiate_def execute_def sendTokens_def getNonce_def
      getAccount_def readOnly_senderAddress promise_defs Let_def)

theorem readOnly_signing_fails_witness:
  "sendTokens demoNode demoReadOnly ''cosmos1rcpt'' [] None []
     = (Inl (Error ''Signing data not set in this client''), [])
   \<and> client_upload demoNode demoReadOnly [0, 97, 115, 109] None []
     = (Inl (Error ''Signing data not set in this client''), [])
   \<and> getNonce demoNode demoReadOnly None [] = (Inl (Error ''Signing data not set in this client''), [])"
  using readOnly_signing_fails
    [of demoNode "''http://localhost:1317''" "[0, 97, 115, 109]" None "[]" 1 "()" None
        "''cosmos1contract''" "()" "''cosmos1rcpt''" "[]"]
  by (simp add: demoReadOnly_def)

section \<open>Properties of threshold keys and aggregation\<close>

text \<open>
  C4. For every threshold key and every mapping from member addresses to raw
  signatures, the aggregated signatures are those of the members whose bit is set, in
  ascending member index of the key's canonical member sequence; the result is the same
  for every order in which the entries of the mapping were supplied.
\<close>

theorem aggregate_ascending_member_order:
  assumes "distinct (map fst sigs)" and "mset sigs' = mset sigs"
    and "aggregate A (Threshold t ms) sigs = Inr r"
  shows "aggregate A (Threshold t ms) sigs' = Inr r
       \<and> bit_array r = map (\<lambda>m. A m \<in> fst ` set sigs) ms
       \<and> multisig_signatures r =
           map (\<lambda>i. signature_bytes (the (map_of sigs (A (ms ! i)))))
             (filter (\<lambda>i. bit_array r ! i) [0 ..< length ms])"
proof -
  have bits: "bit_array r = map (\<lambda>m. map_of sigs (A m) \<noteq> None) ms"
    by (rule aggregate_Inr(1) [OF assms(3)])
  have "aggregate A (Threshold t ms) sigs' = aggregate A (Threshold t ms) sigs"
    by (rule aggregate_depends_on_entries) (rule permuted_entries [OF assms(1,2)])+
  moreover have "bit_array r = map (\<lambda>m. A m \<in> fst ` set sigs) ms"
    using bits by (simp add: map_of_eq_None_iff)
  moreover have "multisig_signatures r =
           map (\<lambda>i. signature_bytes (the (map_of sigs (A (ms ! i)))))
             (filter (\<lambda>i. bit_array r ! i) [0 ..< length ms])"
    using aggregate_Inr(2) [OF assms(3)] collected_positions [OF bits] by simp
  ultimately show ?thesis
    using assms(3) by simp
qed

text \<open>Members 2 and 0 sign, supplied in this order and in the opposite one.\<close>

theorem aggregate_ascending_member_order_witness:
  "distinct (map fst [(''cosmos123'', demoSignature member2), (''cosmos121'', demoSignature member0)])
   \<and> mset [(''cosmos121'', demoSignature member0), (''cosmos123'', demoSignature member2)]
       = mset [(''cosmos123'', demoSignature member2), (''cosmos121'', demoSignature member0)]
   \<and> aggregate demoAddressOf demoKey
        [(''cosmos123'', demoSignature member2), (''cosmos121'', demoSignature member0)]
       = Inr \<lparr>bit_array = [True, False, True, False, False],
              multisig_signatures = [[0xAA, 0x02, 0x61], [0xAA, 0x02, 0xE3]]\<rparr>
   \<and> aggregate demoAddressOf demoKey
        [(''cosmos121'', demoSignature member0), (''cosmos123'', demoSignature member2)]
       = Inr \<lparr>bit_array = [True, False, True, False, False],
              multisig_signatures = [[0xAA, 0x02, 0x61], [0xAA, 0x02, 0xE3]]\<rparr>"
proof -
  have d: "distinct (map fst [(''cosmos123'', demoSignature member2),
                              (''cosmos121'', demoSignature member0)])"
    by simp
  have p: "mset [(''cosmos121'', demoSignature member0), (''cosmos123'', demoSignature member2)]
       = mset [(''cosmos123'', demoSignature member2), (''cosmos121'', demoSignature member0)]"
    by simp
  have a: "aggregate demoAddressOf
        (Threshold 2 (map Single [member0, member1, member2, member3, member4]))
        [(''cosmos123'', demoSignature member2), (''cosmos121'', demoSignature member0)]
       = Inr \<lparr>bit_array = [True, False, True, False, False],
              multisig_signatures = [[0xAA, 0x02, 0x61], [0xAA, 0x02, 0xE3]]\<rparr>"
    by code_simp
  show ?thesis
    using aggregate_ascending_member_order [OF d p a] d p a
    by (simp add: demoKey_def del: aggregate.simps)
qed

text \<open>
  C5. For every successful aggregation, the number of set bits of the bit array equals
  the number of signatures.
\<close>

theorem aggregate_bits_match_signatures:
  assumes "aggregate A (Threshold t ms) sigs = Inr r"
  shows "count_set_bits (bit_array r) = length (multisig_signatures r)"
proof -
  have bits: "bit_array r = map (\<lambda>m. map_of sigs (A m) \<noteq> None) ms"
    by (rule aggregate_Inr(1) [OF assms])
  then have len: "length (bit_array r) = length ms"
    by simp
  have "multisig_signatures r =
          map (\<lambda>i. signature_bytes (the (map_of sigs (A (ms ! i)))))
            (filter (\<lambda>i. bit_array r ! i) [0 ..< length ms])"
    using aggregate_Inr(2) [OF assms] collected_positions [OF bits] by simp
  then have "length (multisig_signatures r)
               = length (filter (\<lambda>i. bit_array r ! i) [0 ..< length (bit_array r)])"
    by (simp add: len)
  then show ?thesis
    by (simp add: count_set_bits_positions)
qed

theorem aggregate_bits_match_signatures_witness:
  "aggregate demoAddressOf (Threshold 2 (map Single [member0, member1, member2, member3, member4]))
        [(''cosmos135'', demoSignature member4), (''cosmos122'', demoSignature member1)]
       = Inr \<lparr>bit_array = [False, True, False, False, True],
              multisig_signatures = [[0xAA, 0x02, 0x62], [0xAA, 0x03, 0x65]]\<rparr>
   \<and> count_set_bits [False, True, False, False, True]
       = length [[0xAA, 0x02, 0x62], [0xAA, 0x03, 0x65 :: 8 word]]"
proof -
  have a: "aggregate demoAddressOf
        (Threshold 2 (map Single [member0, member1, member2, member3, member4]))
        [(''cosmos135'', demoSignature member4), (''cosmos122'', demoSignature member1)]
       = Inr \<lparr>bit_array = [False, True, False, False, True],
              multisig_signatures = [[0xAA, 0x02, 0x62], [0xAA, 0x03, 0x65]]\<rparr>"
    by code_simp
  show ?thesis
    using aggregate_bits_match_signatures [OF a] a by (simp del: aggregate.simps)
qed




text \<open>
  C8. For every threshold key and every non-empty signature mapping whose addresses
  all belong to members, aggregation succeeds, and so does the assembly of the signed
  envelope, whatever the threshold of the key is: the number of set bits is the number
  of members that signed, and it is not compared with the threshold.
\<close>

theorem aggregate_without_threshold_check:
  assumes "sigs \<noteq> []" and "\<forall>e\<in>set sigs. fst e \<in> A ` set ms"
  shows "\<exists>r. aggregate A (Threshold t ms) sigs = Inr r
            \<and> count_set_bits (bit_array r) = length (filter (\<lambda>m. A m \<in> fst ` set sigs) ms)
            \<and> finalizeMultisigTx ser A (Threshold t ms) sq f body sigs =
                Inr \<lparr>body_bytes = body, envelope_fee = f,
                     signer_infos = [(Threshold t ms, sq)],
                     envelope_signatures = [ser r]\<rparr>"
proof -
  let ?bits = "map (\<lambda>a. map_of sigs a \<noteq> None) (map A ms)"
  obtain e where e: "e \<in> set sigs"
    using assms(1) by (cases sigs) auto
  then obtain m where m: "m \<in> set ms" "A m = fst e"
    using assms(2) by force
  have "map_of sigs (fst e) \<noteq> None"
    using e by (simp add: map_of_eq_None_iff)
  with m have "True \<in> set ?bits"
    by force
  then have nz: "count_set_bits ?bits \<noteq> 0"
    by (auto simp add: count_set_bits_zero)
  have known: "\<not> list_ex (\<lambda>entry. fst entry \<notin> set (map A ms)) sigs"
    using assms(2) by (simp add: list_ex_iff)
  obtain r where r: "aggregate A (Threshold t ms) sigs = Inr r"
    using nz known by (simp add: Let_def)
  have bits: "bit_array r = map (\<lambda>m. map_of sigs (A m) \<noteq> None) ms"
    by (rule aggregate_Inr(1) [OF r])
  have "count_set_bits (bit_array r) = length (filter (\<lambda>i. bit_array r ! i) [0 ..< length (bit_array r)])"
    by (simp add: count_set_bits_positions)
  have cnt: "count_set_bits (map p xs) = length (filter p xs)" for p :: "'x \<Rightarrow> bool" and xs
    by (induction xs) simp_all
  have "count_set_bits (bit_array r) = length (filter (\<lambda>m. A m \<in> fst ` set sigs) ms)"
    unfolding bits cnt by (simp add: map_of_eq_None_iff)
  then show ?thesis
    using r by (simp add: finalizeMultisigTx_def buildSignedEnvelope_def)
qed

text \<open>One member of five signs under a threshold of 2: the bit array has one set bit.\<close>

theorem aggregate_without_threshold_check_witness:
  "[(''cosmos134'', demoSignature member3)] \<noteq> []
   \<and> ''cosmos134'' \<in> demoAddressOf ` set (map Single [member0, member1, member2, member3, member4])
   \<and> (\<exists>r. aggregate demoAddressOf demoKey [(''cosmos134'', demoSignature member3)] = Inr r
          \<and> count_set_bits (bit_array r) = 1
          \<and> count_set_bits (bit_array r) < unat (2 :: 32 word))"
proof -
  have ne: "[(''cosmos134'', demoSignature member3)] \<noteq> []"
    by simp
  have mem: "''cosmos134'' \<in> demoAddressOf ` set (map Single [member0, member1, member2, member3, member4])"
    by (simp add: demoAddressOf_def deriveAddress_def demoDisplay_def member3_def)
  then have known: "\<forall>e\<in>set [(''cosmos134'', demoSignature member3)].
         fst e \<in> demoAddressOf ` set (map Single [member0, member1, member2, member3, member4])"
    by simp
  have one: "length (filter (\<lambda>m. demoAddressOf m \<in> fst ` set [(''cosmos134'', demoSignature member3)])
               (map Single [member0, member1, member2, member3, member4])) = 1"
    by (simp add: demoAddressOf_def deriveAddress_def demoDisplay_def
        member0_def member1_def member2_def member3_def member4_def)
  obtain r where r: "aggregate demoAddressOf
        (Threshold 2 (map Single [member0, member1, member2, member3, member4]))
        [(''cosmos134'', demoSignature member3)] = Inr r"
    and c: "count_set_bits (bit_array r) =
              length (filter (\<lambda>m. demoAddressOf m \<in> fst ` set [(''cosmos134'', demoSignature member3)])
                (map Single [member0, member1, member2, member3, member4]))"
    using aggregate_without_threshold_check [OF ne known, of 2 demoSerialize 0
        "\<lparr>fee_amount = [], gas = ''200000''\<rparr>" "[]"]
    by blast
  have c1: "count_set_bits (bit_array r) = 1"
    using c one by (rule trans)
  have below: "count_set_bits (bit_array r) < unat (2 :: 32 word)"
    unfolding c1 by simp
  have "aggregate demoAddressOf demoKey [(''cosmos134'', demoSignature member3)] = Inr r"
    unfolding demoKey_def by (rule r)
  with c1 below have "\<exists>r. aggregate demoAddressOf demoKey [(''cosmos134'', demoSignature member3)] = Inr r
          \<and> count_set_bits (bit_array r) = 1
          \<and> count_set_bits (bit_array r) < unat (2 :: 32 word)"
    by blast
  with ne mem show ?thesis
    by blast
qed

end
